theory Spec2Isabelle
  imports
    Main
    "HOL-Library.Char_ord"
    "HOL-Library.List_Lexorder"
    "HOL-Library.Product_Lexorder"
    "HOL-Library.Multiset"
begin

section \<open>Strings and paths\<close>

text \<open>
  Python strings are modelled as \<^typ>\<open>string\<close>, a list of 8-bit characters: a file name
  is the sequence of its UTF-8 bytes. Comparing two such sequences byte by byte orders them
  as Python orders the strings by code point. \<open>str.lower\<close> and \<open>str.strip\<close> are modelled
  on the ASCII range only.
\<close>

definition lower_char :: "char \<Rightarrow> char" where
  "lower_char c =
     (if CHR ''A'' \<le> c \<and> c \<le> CHR ''Z'' then char_of (of_char c + (32::nat)) else c)"

definition lower :: "string \<Rightarrow> string" where
  "lower s = map lower_char s"

definition startswith :: "string \<Rightarrow> string \<Rightarrow> bool" where
  "startswith s p = (take (length p) s = p)"

definition endswith :: "string \<Rightarrow> string \<Rightarrow> bool" where
  "endswith s p = (length p \<le> length s \<and> drop (length s - length p) s = p)"

text \<open>\<open>sub in s\<close>: the substring test.\<close>

fun contains :: "string \<Rightarrow> string \<Rightarrow> bool" where
  "contains [] sub = (sub = [])"
| "contains (c # cs) sub = (startswith (c # cs) sub \<or> contains cs sub)"

text \<open>\<open>s.replace(a, b)\<close> for a one-character \<open>a\<close>.\<close>

definition replace_char :: "char \<Rightarrow> string \<Rightarrow> string \<Rightarrow> string" where
  "replace_char a b s = concat (map (\<lambda>c. if c = a then b else [c]) s)"

text \<open>\<open>sep.join(xs)\<close>.\<close>

fun join :: "string \<Rightarrow> string list \<Rightarrow> string" where
  "join sep [] = []"
| "join sep [x] = x"
| "join sep (x # y # ys) = x @ sep @ join sep (y # ys)"

text \<open>\<open>str(n)\<close> for a natural number.\<close>

fun str_nat :: "nat \<Rightarrow> string" where
  "str_nat n =
     (if n < 10 then [char_of (48 + n)]
      else str_nat (n div 10) @ [char_of (48 + n mod 10)])"

declare str_nat.simps [simp del]

text \<open>The whitespace that \<open>str.strip()\<close> removes, in the ASCII range.\<close>

definition isspace :: "char \<Rightarrow> bool" where
  "isspace c = (of_char c \<in> {9, 10, 11, 12, 13, 28, 29, 30, 31, 32 :: nat})"

definition strip :: "string \<Rightarrow> string" where
  "strip s = rev (dropWhile isspace (rev (dropWhile isspace s)))"

text \<open>\<open>s.strip(chars)\<close>: every leading and trailing character that occurs in \<open>chars\<close> goes.\<close>

definition strip_chars :: "string \<Rightarrow> string \<Rightarrow> string" where
  "strip_chars chars s =
     rev (dropWhile (\<lambda>c. c \<in> set chars) (rev (dropWhile (\<lambda>c. c \<in> set chars) s)))"

text \<open>
  A path relative to the scan root is the list of its components (\<open>Path.parts\<close>); the
  empty list is the root itself, which prints as a single dot.
\<close>

type_synonym path = "string list"

definition name :: "path \<Rightarrow> string" where
  "name p = (if p = [] then [] else last p)"

definition parent :: "path \<Rightarrow> path" where
  "parent p = butlast p"

definition str_path :: "path \<Rightarrow> string" where
  "str_path p = (if p = [] then ''.'' else join ''/'' p)"

text \<open>\<open>s.rfind(c)\<close>, with \<open>None\<close> for Python's \<open>-1\<close>.\<close>

fun rfind :: "char \<Rightarrow> string \<Rightarrow> nat option" where
  "rfind c [] = None"
| "rfind c (x # xs) =
     (case rfind c xs of
        Some i \<Rightarrow> Some (Suc i)
      | None \<Rightarrow> if x = c then Some 0 else None)"

text \<open>
  \<open>PurePath.suffix\<close> and \<open>PurePath.stem\<close>: the last dot splits the name, unless it is
  the first or the last character of the name.
\<close>

definition path_suffix :: "path \<Rightarrow> string" where
  "path_suffix p =
     (case rfind CHR ''.'' (name p) of
        Some i \<Rightarrow> if 0 < i \<and> i < length (name p) - 1 then drop i (name p) else []
      | None \<Rightarrow> [])"

definition path_stem :: "path \<Rightarrow> string" where
  "path_stem p =
     (case rfind CHR ''.'' (name p) of
        Some i \<Rightarrow> if 0 < i \<and> i < length (name p) - 1 then take i (name p) else name p
      | None \<Rightarrow> name p)"

text \<open>\<open>p.with_suffix('')\<close>: the name loses its suffix, if it has one.\<close>

definition with_suffix_empty :: "path \<Rightarrow> path" where
  "with_suffix_empty p =
     butlast p @
       [if path_suffix p = [] then name p
        else take (length (name p) - length (path_suffix p)) (name p)]"

section \<open>The directory tree\<close>

text \<open>
  The tree under the scan root is the list of its entries, in the order in which the
  recursive walk of \<open>Path.rglob\<close> meets them; each entry has its path relative to the root,
  whether it is a regular file, and what \<open>readlines()\<close> returns for it (\<open>None\<close> when
  opening or decoding the file raises).
\<close>

record fs_entry =
  rel :: path
  is_file :: bool
  readlines :: "string list option"

type_synonym tree = "fs_entry list"

text \<open>What the root path names: nothing, something that is not a directory, or a directory.\<close>

datatype root = Missing | Not_A_Directory | Directory tree

text \<open>
  \<open>root_path.rglob(pattern)\<close> yields every entry below the root whose name matches the
  pattern, hidden ones and directories included, and nothing at all when the root is not a
  directory. The two patterns of the programs are \<open>*\<close> and \<open>*.md\<close>; matching is
  case-sensitive.
\<close>

definition walk :: "root \<Rightarrow> tree" where
  "walk r = (case r of Directory t \<Rightarrow> t | _ \<Rightarrow> [])"

definition rglob_all :: "root \<Rightarrow> path list" where
  "rglob_all r = map rel (walk r)"

definition rglob_md :: "root \<Rightarrow> path list" where
  "rglob_md r = filter (\<lambda>p. endswith (name p) ''.md'') (map rel (walk r))"

section \<open>The directory-grouped variant (create_obsidian_index.py)\<close>

text \<open>
  \<open>md_files\<close> is a \<open>defaultdict(list)\<close>: an association list in insertion order, and a
  missing key reads as the empty list. A file is kept as its path relative to the root
  (every path that \<open>rglob\<close> yields lies below the root, so \<open>relative_to\<close> does not raise).
\<close>

type_synonym md_dict = "(string \<times> path list) list"

fun dict_append :: "string \<Rightarrow> path \<Rightarrow> md_dict \<Rightarrow> md_dict" where
  "dict_append k v [] = [(k, [v])]"
| "dict_append k v ((k', vs) # kvs) =
     (if k' = k then (k', vs @ [v]) # kvs else (k', vs) # dict_append k v kvs)"

definition dict_get :: "md_dict \<Rightarrow> string \<Rightarrow> path list" where
  "dict_get d k = (case map_of d k of Some vs \<Rightarrow> vs | None \<Rightarrow> [])"

definition parent_dir :: "path \<Rightarrow> string" where
  "parent_dir rel_path =
     (if str_path (parent rel_path) \<noteq> ''.'' then str_path (parent rel_path) else ''Root'')"

definition scan_step :: "md_dict \<Rightarrow> path \<Rightarrow> md_dict" where
  "scan_step md_files md_file =
     (if lower (name md_file) = ''index.md'' then md_files
      else dict_append (parent_dir md_file) md_file md_files)"

definition scan_markdown_files :: "root \<Rightarrow> md_dict" where
  "scan_markdown_files r = foldl scan_step [] (rglob_md r)"

definition create_obsidian_link :: "path \<Rightarrow> string" where
  "create_obsidian_link file_path =
     ''[['' @ str_path (with_suffix_empty file_path) @ ''|'' @ path_stem file_path @ '']]''"

definition folder_icon :: string where
  "folder_icon = [CHR 0xF0, CHR 0x9F, CHR 0x93, CHR 0x81]"

definition sorted_dirs :: "md_dict \<Rightarrow> string list" where
  "sorted_dirs md_files = sort_key (\<lambda>x. (x \<noteq> ''Root'', lower x)) (map fst md_files)"

definition sorted_files :: "md_dict \<Rightarrow> string \<Rightarrow> path list" where
  "sorted_files md_files directory =
     sort_key (\<lambda>x. lower (name x)) (dict_get md_files directory)"

definition anchor :: "string \<Rightarrow> string" where
  "anchor directory =
     replace_char CHR ''.'' []
       (replace_char CHR ''/'' ''-'' (replace_char CHR '' '' ''-'' (lower directory)))"

definition toc_line :: "string \<Rightarrow> string" where
  "toc_line directory =
     ''- ['' @ folder_icon @ '' '' @
       (if directory = ''Root'' then ''Root Directory'' else directory) @
     ''](#'' @ anchor directory @ '')''"

definition link_line :: "path \<Rightarrow> string" where
  "link_line file_path = ''- '' @ create_obsidian_link file_path"

definition section_lines :: "md_dict \<Rightarrow> string \<Rightarrow> string list" where
  "section_lines md_files directory =
     [''## '' @ (if directory = ''Root'' then ''Root Directory'' else directory),
      '''',
      ''*'' @ str_nat (length (dict_get md_files directory)) @ '' file(s)*'',
      ''''] @
     map link_line (sorted_files md_files directory) @
     ['''']"

text \<open>
  The list \<open>content\<close> that \<open>generate_index_content\<close> builds; \<open>now\<close> is the formatted
  wall-clock time.
\<close>

definition index_lines :: "md_dict \<Rightarrow> string \<Rightarrow> string list" where
  "index_lines md_files now =
     [''# Obsidian Notes Index'',
      '''',
      ''*Generated on: '' @ now @ ''*'',
      '''',
      ''## Statistics'',
      '''',
      ''- **Total Files**: '' @ str_nat (sum_list (map (\<lambda>kv. length (snd kv)) md_files)),
      ''- **Total Directories**: '' @ str_nat (length md_files),
      '''',
      ''## Table of Contents'',
      ''''] @
     map toc_line (sorted_dirs md_files) @
     ['''', ''---'', ''''] @
     concat (map (section_lines md_files) (sorted_dirs md_files)) @
     [''---'',
      '''',
      ''*This index was automatically generated. To regenerate, run `python create_obsidian_index.py`*'',
      '''']"

definition generate_index_content :: "md_dict \<Rightarrow> string \<Rightarrow> string" where
  "generate_index_content md_files now = join [CHR 0x0A] (index_lines md_files now)"

text \<open>The files for which the document has a link line, in document order.\<close>

definition listed_files :: "md_dict \<Rightarrow> path list" where
  "listed_files md_files = concat (map (sorted_files md_files) (sorted_dirs md_files))"

text \<open>
  Effects are kept as a trace: what is printed, the start of the recursive walk, and the
  write of the output file (name and text). Opening a file for writing below the root
  fails when the root is not a directory, and when the name is taken by a directory;
  permissions are not modelled. An exception that nothing catches ends the process with
  exit code 1.
\<close>

datatype os_error = FileNotFoundError | NotADirectoryError | IsADirectoryError

datatype message =
    Scanning
  | Error_Directory_Does_Not_Exist
  | No_Markdown_Files_Found
  | Found nat nat
  | Index_Created
  | Index_Generated
  | Counts nat nat nat
  | Error_Exception os_error

datatype event = Print message | Print_Stderr message | Traverse | Write_File string string

record outcome =
  events :: "event list"
  exit_code :: nat

definition open_write :: "root \<Rightarrow> string \<Rightarrow> os_error option" where
  "open_write r fname =
     (case r of
        Missing \<Rightarrow> Some FileNotFoundError
      | Not_A_Directory \<Rightarrow> Some NotADirectoryError
      | Directory t \<Rightarrow>
          if list_ex (\<lambda>e. rel e = [fname] \<and> \<not> is_file e) t then Some IsADirectoryError
          else None)"

text \<open>\<open>main\<close> of create_obsidian_index.py.\<close>

definition main_create_obsidian_index :: "root \<Rightarrow> string \<Rightarrow> outcome" where
  "main_create_obsidian_index r now =
     (case r of
        Directory t \<Rightarrow>
          (let md_files = scan_markdown_files r in
           if md_files = [] then
             \<lparr>events = [Print Scanning, Traverse, Print No_Markdown_Files_Found], exit_code = 0\<rparr>
           else
             (let found = Found (sum_list (map (\<lambda>kv. length (snd kv)) md_files)) (length md_files);
                  index_content = generate_index_content md_files now
              in case open_write r ''index.md'' of
                   Some e \<Rightarrow>
                     \<lparr>events = [Print Scanning, Traverse, Print found], exit_code = 1\<rparr>
                 | None \<Rightarrow>
                     \<lparr>events = [Print Scanning, Traverse, Print found,
                                Write_File ''index.md'' index_content, Print Index_Created],
                      exit_code = 0\<rparr>))
      | _ \<Rightarrow> \<lparr>events = [Print Error_Directory_Does_Not_Exist], exit_code = 1\<rparr>)"

section \<open>The category-grouped variant (index_generator.py)\<close>

definition default_ignores :: "string list" where
  "default_ignores =
     [''.git'', ''__pycache__'', ''.pytest_cache'', ''venv'', ''env'',
      ''.vscode'', ''.idea'', ''node_modules'', ''.DS_Store'', ''index.md'']"

definition should_ignore :: "path \<Rightarrow> string list \<Rightarrow> bool" where
  "should_ignore p ignore_patterns =
     (let all_ignores = default_ignores @ ignore_patterns
      in list_ex (\<lambda>part. part \<in> set all_ignores \<or> startswith part ''.'') p)"

record files_by_type =
  python_scripts :: "path list"
  markdown_files :: "path list"
  other_files :: "path list"

definition other_suffixes :: "string list" where
  "other_suffixes = [''.txt'', ''.json'', ''.yaml'', ''.yml'', ''.toml'', ''.cfg'', ''.ini'']"

definition categorize :: "files_by_type \<Rightarrow> fs_entry \<Rightarrow> files_by_type" where
  "categorize acc item =
     (if is_file item then
        (let rel_path = rel item in
         if should_ignore rel_path [] then acc
         else if path_suffix rel_path = ''.py'' then
           acc\<lparr>python_scripts := python_scripts acc @ [rel_path]\<rparr>
         else if path_suffix rel_path = ''.md'' then
           acc\<lparr>markdown_files := markdown_files acc @ [rel_path]\<rparr>
         else if path_suffix rel_path \<in> set other_suffixes then
           acc\<lparr>other_files := other_files acc @ [rel_path]\<rparr>
         else acc)
      else acc)"

text \<open>
  \<open>list.sort()\<close> on paths compares the component lists, each component by code point
  (the POSIX flavour of \<open>pathlib\<close>): the lexicographic order on \<^typ>\<open>path\<close>.
\<close>

definition scan_directory :: "root \<Rightarrow> files_by_type" where
  "scan_directory r =
     (let found = foldl categorize
                    \<lparr>python_scripts = [], markdown_files = [], other_files = []\<rparr> (walk r)
      in \<lparr>python_scripts = sort (python_scripts found),
          markdown_files = sort (markdown_files found),
          other_files = sort (other_files found)\<rparr>)"

definition triple_double :: string where
  "triple_double = [CHR 0x22, CHR 0x22, CHR 0x22]"

definition triple_single :: string where
  "triple_single = [CHR 0x27, CHR 0x27, CHR 0x27]"

text \<open>The loop over the lines of \<open>get_file_description\<close>, with its flag \<open>in_docstring\<close>.\<close>

fun docstring_scan :: "bool \<Rightarrow> string list \<Rightarrow> string" where
  "docstring_scan in_docstring [] = []"
| "docstring_scan in_docstring (line # lines) =
     (let stripped = strip line in
      if contains stripped triple_double \<or> contains stripped triple_single then
        (if \<not> in_docstring then
           (let content = strip (strip_chars triple_single (strip_chars triple_double stripped))
            in if content \<noteq> [] then content else docstring_scan True lines)
         else [])
      else if in_docstring then
        (if stripped \<noteq> [] then stripped else docstring_scan in_docstring lines)
      else docstring_scan in_docstring lines)"

text \<open>
  \<open>open(root_path / p)\<close> followed by \<open>readlines()\<close>: \<open>None\<close> when either raises (no
  such file, a directory, unreadable or undecodable text).
\<close>

definition read_lines :: "root \<Rightarrow> path \<Rightarrow> string list option" where
  "read_lines r p =
     (case find (\<lambda>e. rel e = p) (walk r) of
        None \<Rightarrow> None
      | Some e \<Rightarrow> if is_file e then readlines e else None)"

definition get_file_description :: "root \<Rightarrow> path \<Rightarrow> string" where
  "get_file_description r file_path =
     (if path_suffix file_path = ''.py'' then
        (case read_lines r file_path of
           None \<Rightarrow> []
         | Some lines \<Rightarrow> docstring_scan False lines)
      else [])"

definition plain_entry :: "path \<Rightarrow> string" where
  "plain_entry p = ''- ['' @ str_path p @ '']('' @ str_path p @ '')''"

definition script_entry :: "root \<Rightarrow> path \<Rightarrow> string" where
  "script_entry r script =
     (let description = get_file_description r script in
      if description \<noteq> [] then plain_entry script @ '' - '' @ description
      else plain_entry script)"

text \<open>The list \<open>content\<close> that \<open>generate_index\<close> builds.\<close>

definition generate_index_lines :: "root \<Rightarrow> files_by_type \<Rightarrow> string \<Rightarrow> string list" where
  "generate_index_lines r fbt now =
     [''# Utility Tools Index'',
      '''',
      ''*Generated on: '' @ now @ ''*'',
      '''',
      ''This index provides easy navigation to all utility tools in this repository.'',
      ''''] @
     (if python_scripts fbt \<noteq> [] then
        [''## Python Scripts'', ''''] @ map (script_entry r) (python_scripts fbt) @ ['''']
      else []) @
     (if markdown_files fbt \<noteq> [] then
        [''## Documentation'', ''''] @ map plain_entry (markdown_files fbt) @ ['''']
      else []) @
     (if other_files fbt \<noteq> [] then
        [''## Configuration Files'', ''''] @ map plain_entry (other_files fbt) @ ['''']
      else []) @
     [''---'',
      '''',
      ''## How to Use'',
      '''',
      ''Each tool in this repository is designed to be self-contained and easy to use.'',
      ''Check individual tool documentation for specific usage instructions.'',
      '''',
      ''### Regenerating This Index'',
      '''',
      ''To regenerate this index after adding new tools:'',
      '''',
      ''```bash'',
      ''python index_generator.py'',
      ''```'',
      '''']"

text \<open>
  \<open>generate_index\<close>: the trace, and the exception that ended it, if any. The output name
  is a plain file name, so that \<open>root_path / output_file\<close> lies in the root.
\<close>

definition generate_index :: "root \<Rightarrow> string \<Rightarrow> string \<Rightarrow> event list \<times> os_error option" where
  "generate_index r output_file now =
     (let fbt = scan_directory r;
          content = generate_index_lines r fbt now
      in case open_write r output_file of
           Some e \<Rightarrow> ([Print Scanning, Traverse], Some e)
         | None \<Rightarrow>
             ([Print Scanning, Traverse,
               Write_File output_file (join [CHR 0x0A] content),
               Print Index_Generated,
               Print (Counts (length (python_scripts fbt)) (length (markdown_files fbt))
                        (length (other_files fbt)))],
              None))"

text \<open>\<open>main\<close> of index_generator.py, with the parsed \<open>--output\<close> argument.\<close>

definition main_index_generator :: "root \<Rightarrow> string \<Rightarrow> string \<Rightarrow> outcome" where
  "main_index_generator r output_file now =
     (case generate_index r output_file now of
        (evs, None) \<Rightarrow> \<lparr>events = evs, exit_code = 0\<rparr>
      | (evs, Some e) \<Rightarrow>
          \<lparr>events = evs @ [Print_Stderr (Error_Exception e)], exit_code = 1\<rparr>)"

text \<open>The files for which the document has an entry line, in document order.\<close>

definition listed_paths :: "files_by_type \<Rightarrow> path list" where
  "listed_paths fbt = python_scripts fbt @ markdown_files fbt @ other_files fbt"

section \<open>Reading a trace and a document\<close>

definition writes :: "outcome \<Rightarrow> (string \<times> string) list" where
  "writes out =
     concat (map (\<lambda>ev. case ev of Write_File n c \<Rightarrow> [(n, c)] | _ \<Rightarrow> []) (events out))"

definition group_headers :: "string list \<Rightarrow> string list" where
  "group_headers ls = filter (\<lambda>l. startswith l ''## '') ls"

definition wiki_links :: "string list \<Rightarrow> string list" where
  "wiki_links ls = filter (\<lambda>l. startswith l ''- [['') ls"

definition entry_lines :: "string list \<Rightarrow> string list" where
  "entry_lines ls = filter (\<lambda>l. startswith l ''- ['') ls"

text \<open>A readable regular file with its lines, and a directory.\<close>

definition file_entry :: "path \<Rightarrow> string list \<Rightarrow> fs_entry" where
  "file_entry p ls = \<lparr>rel = p, is_file = True, readlines = Some ls\<rparr>"

definition dir_entry :: "path \<Rightarrow> fs_entry" where
  "dir_entry p = \<lparr>rel = p, is_file = False, readlines = None\<rparr>"

text \<open>An example tree: \<open>a/x.md\<close>, \<open>b/y.md\<close> and \<open>.git/z.md\<close>, with their directories.\<close>

definition example_tree :: tree where
  "example_tree =
     [dir_entry [''a''], file_entry [''a'', ''x.md''] [],
      dir_entry [''b''], file_entry [''b'', ''y.md''] [],
      dir_entry [''.git''], file_entry [''.git'', ''z.md''] []]"

text \<open>The heading of a group's section in the directory-grouped document.\<close>

definition section_header :: "string \<Rightarrow> string" where
  "section_header directory =
     ''## '' @ (if directory = ''Root'' then ''Root Directory'' else directory)"

section \<open>The rules of the walkers, as predicates\<close>

text \<open>A path is hidden when one of its components begins with a dot.\<close>

definition hidden :: "path \<Rightarrow> bool" where
  "hidden p = list_ex (\<lambda>part. startswith part ''.'') p"

text \<open>The three tests of \<open>scan_directory\<close>, one for each category.\<close>

definition is_py :: "fs_entry \<Rightarrow> bool" where
  "is_py e = (is_file e \<and> \<not> should_ignore (rel e) [] \<and> path_suffix (rel e) = ''.py'')"

definition is_md :: "fs_entry \<Rightarrow> bool" where
  "is_md e = (is_file e \<and> \<not> should_ignore (rel e) [] \<and> path_suffix (rel e) = ''.md'')"

definition is_other :: "fs_entry \<Rightarrow> bool" where
  "is_other e =
     (is_file e \<and> \<not> should_ignore (rel e) [] \<and> path_suffix (rel e) \<in> set other_suffixes)"


text \<open>
  Text that the stripping of \<open>get_file_description\<close> leaves as it is: not empty, and
  neither its first nor its last character is whitespace or a quote character.
\<close>

definition quote_or_space :: "char \<Rightarrow> bool" where
  "quote_or_space c = (isspace c \<or> c = CHR 0x22 \<or> c = CHR 0x27)"

definition plain_text :: "string \<Rightarrow> bool" where
  "plain_text c = (c \<noteq> [] \<and> \<not> quote_or_space (hd c) \<and> \<not> quote_or_space (last c))"

definition has_triple_quote :: "string \<Rightarrow> bool" where
  "has_triple_quote l = (contains (strip l) triple_double \<or> contains (strip l) triple_single)"


section \<open>Example trees\<close>

definition newline :: string where
  "newline = [CHR 0x0A]"

definition noon :: string where
  "noon = ''2024-01-01 12:00:00''"

definition notes_root :: root where
  "notes_root =
     Directory [dir_entry [''notes''], file_entry [''notes'', ''Index.md''] [],
                file_entry [''notes'', ''a.md''] [], file_entry [''INDEX.MD''] []]"

definition mixed_root :: root where
  "mixed_root = Directory [file_entry [''a.py''] [], file_entry [''b.md''] []]"

definition case_root :: root where
  "case_root = Directory [file_entry [''B.py''] [], file_entry [''a.py''] []]"

text \<open>A root that holds the document of an earlier run with \<open>--output nav.md\<close>.\<close>

definition nav_root :: root where
  "nav_root = Directory [file_entry [''tool.py''] [], file_entry [''nav.md''] [''# Utility Tools Index'']]"

text \<open>A script whose only line is a one-line docstring that ends with a quoted word.\<close>

definition quoted_root :: root where
  "quoted_root =
     Directory [file_entry [''script.py'']
       [triple_double @ ''Prints '' @ [CHR 0x27] @ ''hello'' @ [CHR 0x27] @ triple_double @ newline]]"

text \<open>A script with a docstring over three lines, after the interpreter line.\<close>

definition script_root :: root where
  "script_root =
     Directory [file_entry [''script.py'']
       [''#!/usr/bin/env python3'' @ newline,
        triple_double @ newline,
        ''Does a thing.'' @ newline,
        triple_double @ newline]]"

definition groups_root :: root where
  "groups_root =
     Directory [dir_entry [''b''], file_entry [''b'', ''y.md''] [], file_entry [''top.md''] [],
                dir_entry [''A''], file_entry [''A'', ''x.md''] [], file_entry [''A'', ''W.md''] []]"

text \<open>A tree in which nothing matches: the document of an earlier run, and a picture.\<close>

definition index_only_tree :: tree where
  "index_only_tree = [file_entry [''index.md''] [''# old index''], file_entry [''photo.png''] []]"

text \<open>A script whose docstring is on one line, and a script that cannot be read.\<close>

definition inline_root :: root where
  "inline_root =
     Directory [file_entry [''script.py'']
       [triple_double @ ''Does a thing.'' @ triple_double @ newline, ''import os'' @ newline]]"

definition unreadable_root :: root where
  "unreadable_root = Directory [\<lparr>rel = [''script.py''], is_file = True, readlines = None\<rparr>]"

section \<open>Prefixes of the document lines\<close>

lemma startswith_simps:
  "startswith s [] = True"
  "startswith [] (c # p) = False"
  "startswith (a # s) (c # p) = (a = c \<and> startswith s p)"
  by (auto simp add: startswith_def)

lemma startswith_link_line: "startswith (link_line p) ''- [[''"
  by (simp add: link_line_def create_obsidian_link_def startswith_simps)

lemma not_wiki_toc_line: "\<not> startswith (toc_line d) ''- [[''"
  by (simp add: toc_line_def folder_icon_def startswith_simps)

lemma wiki_links_section:
  "filter (\<lambda>l. startswith l ''- [['') (section_lines md d) = map link_line (sorted_files md d)"
  by (simp add: section_lines_def startswith_simps filter_map o_def startswith_link_line)

lemma wiki_links_index_lines:
  "wiki_links (index_lines md now) = map link_line (listed_files md)"
  by (simp add: wiki_links_def index_lines_def listed_files_def startswith_simps filter_concat
      filter_map o_def not_wiki_toc_line wiki_links_section map_concat)

lemma headers_section:
  "filter (\<lambda>l. startswith l ''## '') (section_lines md d) = [section_header d]"
  by (simp add: section_lines_def startswith_simps filter_map o_def link_line_def
      section_header_def)

lemma not_header_toc_line: "\<not> startswith (toc_line d) ''## ''"
  by (simp add: toc_line_def startswith_simps)

lemma group_headers_index_lines:
  "group_headers (index_lines md now) =
     [''## Statistics'', ''## Table of Contents''] @ map section_header (sorted_dirs md)"
  by (simp add: group_headers_def index_lines_def startswith_simps filter_concat
      filter_map o_def not_header_toc_line headers_section)

lemma startswith_plain_entry: "startswith (plain_entry p) ''- [''"
  by (simp add: startswith_simps plain_entry_def)

lemma startswith_script_entry: "startswith (script_entry r p) ''- [''"
  by (simp add: startswith_simps script_entry_def plain_entry_def Let_def)

lemma filter_entries:
  "filter (\<lambda>l. startswith l ''- ['') (map plain_entry ps) = map plain_entry ps"
  "filter (\<lambda>l. startswith l ''- ['') (map (script_entry r) ps) = map (script_entry r) ps"
  by (simp_all add: filter_map o_def startswith_plain_entry startswith_script_entry)

lemma entry_lines_generate_index:
  "entry_lines (generate_index_lines r fbt now) =
     map (script_entry r) (python_scripts fbt) @
     map plain_entry (markdown_files fbt) @ map plain_entry (other_files fbt)"
  by (simp add: entry_lines_def generate_index_lines_def filter_entries startswith_simps)

lemma group_headers_generate_index:
  "group_headers (generate_index_lines r fbt now) =
     (if python_scripts fbt \<noteq> [] then [''## Python Scripts''] else []) @
     (if markdown_files fbt \<noteq> [] then [''## Documentation''] else []) @
     (if other_files fbt \<noteq> [] then [''## Configuration Files''] else []) @
     [''## How to Use'']"
  by (simp add: group_headers_def generate_index_lines_def
      startswith_def filter_map o_def plain_entry_def script_entry_def Let_def)

section \<open>The grouping of the directory-grouped scan\<close>

lemma keys_dict_append:
  "fst ` set (dict_append k v d) = insert k (fst ` set d)"
  by (induction k v d rule: dict_append.induct) (auto simp add: image_iff)

lemma distinct_keys_dict_append:
  "distinct (map fst d) \<Longrightarrow> distinct (map fst (dict_append k v d))"
proof (induction d)
  case Nil
  show ?case by simp
next
  case (Cons kv d)
  obtain k' vs where kv: "kv = (k', vs)" by (cases kv)
  from Cons have "distinct (map fst (dict_append k v d))" by simp
  moreover from Cons.prems kv have "k' \<noteq> k \<Longrightarrow> k' \<notin> fst ` set (dict_append k v d)"
    by (simp add: keys_dict_append)
  ultimately show ?case using Cons.prems kv by auto
qed

lemma mset_values_dict_append:
  "mset (concat (map snd (dict_append k v d))) = add_mset v (mset (concat (map snd d)))"
  by (induction d) auto

lemma distinct_keys_foldl_scan:
  "distinct (map fst d) \<Longrightarrow> distinct (map fst (foldl scan_step d ps))"
  by (induction ps arbitrary: d) (simp_all add: scan_step_def distinct_keys_dict_append)

lemma mset_values_foldl_scan:
  "mset (concat (map snd (foldl scan_step d ps))) =
     mset (concat (map snd d)) + mset (filter (\<lambda>p. lower (name p) \<noteq> ''index.md'') ps)"
  by (induction ps arbitrary: d) (simp_all add: scan_step_def mset_values_dict_append)

lemma dict_get_distinct:
  "distinct (map fst d) \<Longrightarrow> kv \<in> set d \<Longrightarrow> dict_get d (fst kv) = snd kv"
  by (cases kv) (simp add: dict_get_def)

lemma mset_listed_files:
  assumes "distinct (map fst md)"
  shows "mset (listed_files md) = mset (concat (map snd md))"
proof -
  have "mset (listed_files md) = (\<Sum>d\<leftarrow>sorted_dirs md. mset (dict_get md d))"
    by (simp add: listed_files_def mset_concat sorted_files_def o_def)
  also have "\<dots> = sum_mset (image_mset (\<lambda>d. mset (dict_get md d)) (mset (sorted_dirs md)))"
    by (simp flip: sum_mset_sum_list)
  also have "\<dots> = sum_mset (image_mset (\<lambda>d. mset (dict_get md d)) (mset (map fst md)))"
    by (simp add: sorted_dirs_def)
  also have "\<dots> = (\<Sum>kv\<leftarrow>md. mset (dict_get md (fst kv)))"
    by (simp flip: sum_mset_sum_list add: multiset.map_comp o_def)
  also have "\<dots> = (\<Sum>kv\<leftarrow>md. mset (snd kv))"
    using assms by (intro arg_cong [where f = sum_list] map_cong refl) (simp add: dict_get_distinct)
  also have "\<dots> = mset (concat (map snd md))"
    by (simp add: mset_concat o_def)
  finally show ?thesis .
qed

lemma distinct_keys_scan: "distinct (map fst (scan_markdown_files r))"
  by (simp add: scan_markdown_files_def distinct_keys_foldl_scan)

lemma mset_values_scan:
  "mset (concat (map snd (scan_markdown_files r))) =
     mset (filter (\<lambda>p. lower (name p) \<noteq> ''index.md'') (rglob_md r))"
  by (simp add: scan_markdown_files_def mset_values_foldl_scan)

lemma mset_listed_scan:
  "mset (listed_files (scan_markdown_files r)) =
     mset (filter (\<lambda>p. lower (name p) \<noteq> ''index.md'') (rglob_md r))"
  by (simp add: mset_listed_files distinct_keys_scan mset_values_scan)

lemma set_listed_scan:
  "set (listed_files (scan_markdown_files r)) =
     {p \<in> set (rglob_md r). lower (name p) \<noteq> ''index.md''}"
proof -
  have "set (listed_files (scan_markdown_files r)) =
      set_mset (mset (listed_files (scan_markdown_files r)))"
    by simp
  also have "\<dots> = {p \<in> set (rglob_md r). lower (name p) \<noteq> ''index.md''}"
    unfolding mset_listed_scan by auto
  finally show ?thesis .
qed

lemma set_values_scan:
  "set (concat (map snd (scan_markdown_files r))) =
     {p \<in> set (rglob_md r). lower (name p) \<noteq> ''index.md''}"
proof -
  have "set (concat (map snd (scan_markdown_files r))) =
      set_mset (mset (concat (map snd (scan_markdown_files r))))"
    by (simp del: set_concat)
  also have "\<dots> = {p \<in> set (rglob_md r). lower (name p) \<noteq> ''index.md''}"
    unfolding mset_values_scan by auto
  finally show ?thesis .
qed

section \<open>The categories of the category-grouped scan\<close>

lemma other_suffixes_not_script:
  "''.py'' \<notin> set other_suffixes" "''.md'' \<notin> set other_suffixes"
  by (simp_all add: other_suffixes_def)

lemma categorize_eq:
  "categorize acc e =
     \<lparr>python_scripts = python_scripts acc @ (if is_py e then [rel e] else []),
      markdown_files = markdown_files acc @ (if is_md e then [rel e] else []),
      other_files = other_files acc @ (if is_other e then [rel e] else [])\<rparr>"
  using other_suffixes_not_script
  by (auto simp add: categorize_def Let_def is_py_def is_md_def is_other_def)

lemma foldl_categorize:
  "foldl categorize acc t =
     \<lparr>python_scripts = python_scripts acc @ map rel (filter is_py t),
      markdown_files = markdown_files acc @ map rel (filter is_md t),
      other_files = other_files acc @ map rel (filter is_other t)\<rparr>"
proof (induction t arbitrary: acc)
  case Nil
  show ?case by simp
next
  case (Cons e t)
  have "foldl categorize acc (e # t) = foldl categorize (categorize acc e) t"
    by simp
  also have "\<dots> =
     \<lparr>python_scripts = python_scripts (categorize acc e) @ map rel (filter is_py t),
      markdown_files = markdown_files (categorize acc e) @ map rel (filter is_md t),
      other_files = other_files (categorize acc e) @ map rel (filter is_other t)\<rparr>"
    by (rule Cons)
  also have "\<dots> =
     \<lparr>python_scripts = python_scripts acc @ map rel (filter is_py (e # t)),
      markdown_files = markdown_files acc @ map rel (filter is_md (e # t)),
      other_files = other_files acc @ map rel (filter is_other (e # t))\<rparr>"
    by (simp add: categorize_eq)
  finally show ?case .
qed

lemma scan_directory_eq:
  "scan_directory r =
     \<lparr>python_scripts = sort (map rel (filter is_py (walk r))),
      markdown_files = sort (map rel (filter is_md (walk r))),
      other_files = sort (map rel (filter is_other (walk r)))\<rparr>"
  by (simp add: scan_directory_def foldl_categorize Let_def)

lemma set_listed_paths:
  "set (listed_paths (scan_directory r)) =
     rel ` {e \<in> set (walk r). is_py e \<or> is_md e \<or> is_other e}"
  by (auto simp add: listed_paths_def scan_directory_eq)

section \<open>The index never lists itself (directory-grouped variant)\<close>

text \<open>
  Claim C10. In the directory-grouped variant the document is skipped by name whatever the
  letter case: a path whose name is \<open>index.md\<close> once lower-cased, in any directory, is in
  no group of the scan and is not among the files for which the document has a link line;
  and the link lines of the document are exactly those of the listed files.
\<close>

theorem index_md_skipped_in_any_case:
  assumes "lower (name p) = ''index.md''"
  shows "(\<forall>kv \<in> set (scan_markdown_files r). p \<notin> set (snd kv)) \<and>
         p \<notin> set (listed_files (scan_markdown_files r)) \<and>
         wiki_links (index_lines (scan_markdown_files r) now) =
           map link_line (listed_files (scan_markdown_files r))"
proof -
  have "p \<notin> set (concat (map snd (scan_markdown_files r)))"
    unfolding set_values_scan using assms by simp
  then have "\<forall>kv \<in> set (scan_markdown_files r). p \<notin> set (snd kv)"
    by auto
  moreover have "p \<notin> set (listed_files (scan_markdown_files r))"
    unfolding set_listed_scan using assms by simp
  ultimately show ?thesis
    by (simp add: wiki_links_index_lines)
qed

theorem index_md_skipped_in_any_case_witness:
  "lower (name [''notes'', ''Index.md'']) = ''index.md'' \<and>
   [''notes'', ''Index.md''] \<in> set (rglob_md notes_root) \<and>
   [''notes'', ''Index.md''] \<notin> set (listed_files (scan_markdown_files notes_root)) \<and>
   wiki_links (index_lines (scan_markdown_files notes_root) noon) = [''- [[notes/a|a]]'']"
proof -
  have h: "lower (name [''notes'', ''Index.md'']) = ''index.md''"
    by code_simp
  have m: "[''notes'', ''Index.md''] \<in> set (rglob_md notes_root)"
    by code_simp
  have l: "map link_line (listed_files (scan_markdown_files notes_root)) = [''- [[notes/a|a]]'']"
    by code_simp
  from index_md_skipped_in_any_case [OF h, of notes_root noon] h m l
  show ?thesis by simp
qed

section \<open>Hidden files\<close>

lemma hidden_should_ignore: "hidden p \<Longrightarrow> should_ignore p ps"
  by (auto simp add: hidden_def should_ignore_def list_ex_iff)

text \<open>
  Claim C1, as stated, fails for the directory-grouped variant: \<open>scan_markdown_files\<close>
  has no rule for hidden components, so on the tree with \<open>a/x.md\<close>, \<open>b/y.md\<close> and
  \<open>.git/z.md\<close> the document has a link line for \<open>.git/z.md\<close>.
\<close>

theorem hidden_files_listed_by_directory_variant:
  "hidden [''.git'', ''z.md''] \<and>
   link_line [''.git'', ''z.md''] = ''- [[.git/z|z]]'' \<and>
   ''- [[.git/z|z]]'' \<in> set (wiki_links (index_lines (scan_markdown_files (Directory example_tree)) noon))"
  by code_simp

text \<open>
  Claim C1, amended to the category-grouped variant: a path with a component that begins
  with a dot is not among the paths for which the document has an entry line, and the entry
  lines of the document are exactly those of the listed paths.
\<close>

theorem hidden_never_listed_by_category_variant:
  assumes "hidden p"
  shows "p \<notin> set (listed_paths (scan_directory r)) \<and>
         entry_lines (generate_index_lines r (scan_directory r) now) =
           map (script_entry r) (python_scripts (scan_directory r)) @
           map plain_entry (markdown_files (scan_directory r)) @
           map plain_entry (other_files (scan_directory r))"
proof -
  have "p \<notin> set (listed_paths (scan_directory r))"
    unfolding set_listed_paths
    using hidden_should_ignore [OF assms] by (auto simp add: is_py_def is_md_def is_other_def)
  then show ?thesis
    by (simp add: entry_lines_generate_index)
qed

theorem hidden_never_listed_by_category_variant_witness:
  "hidden [''.git'', ''z.md''] \<and>
   [''.git'', ''z.md''] \<in> set (rglob_all (Directory example_tree)) \<and>
   [''.git'', ''z.md''] \<notin> set (listed_paths (scan_directory (Directory example_tree))) \<and>
   entry_lines (generate_index_lines (Directory example_tree)
       (scan_directory (Directory example_tree)) noon) =
     [''- [a/x.md](a/x.md)'', ''- [b/y.md](b/y.md)'']"
proof -
  have h: "hidden [''.git'', ''z.md'']"
    by code_simp
  have m: "[''.git'', ''z.md''] \<in> set (rglob_all (Directory example_tree))"
    by code_simp
  have l: "map (script_entry (Directory example_tree))
             (python_scripts (scan_directory (Directory example_tree))) @
           map plain_entry (markdown_files (scan_directory (Directory example_tree))) @
           map plain_entry (other_files (scan_directory (Directory example_tree))) =
           [''- [a/x.md](a/x.md)'', ''- [b/y.md](b/y.md)'']"
    by code_simp
  from hidden_never_listed_by_category_variant [OF h, of "Directory example_tree" noon] h m l
  show ?thesis by simp
qed

section \<open>The output name\<close>

text \<open>
  Claim C4 at a failing input: with \<open>--output nav.md\<close> and a root that holds the
  \<open>nav.md\<close> of an earlier run, the category-grouped variant writes \<open>nav.md\<close> again and
  the document it writes has an entry line for \<open>nav.md\<close> itself: \<open>should_ignore\<close> knows
  the name \<open>index.md\<close> only.
\<close>

theorem custom_output_name_is_listed:
  "writes (main_index_generator nav_root ''nav.md'' noon) =
     [(''nav.md'', join newline (generate_index_lines nav_root (scan_directory nav_root) noon))] \<and>
   entry_lines (generate_index_lines nav_root (scan_directory nav_root) noon) =
     [''- [tool.py](tool.py)'', ''- [nav.md](nav.md)'']"
  by code_simp

text \<open>With the default name the category-grouped variant does skip the document.\<close>

lemma default_output_name_is_skipped:
  "''index.md'' \<in> set p \<Longrightarrow> p \<notin> set (listed_paths (scan_directory r))"
  unfolding set_listed_paths
  by (auto simp add: is_py_def is_md_def is_other_def should_ignore_def default_ignores_def list_ex_iff)

section \<open>The order of the groups\<close>

lemma sorted_sorted_dirs:
  "sorted (map (\<lambda>x. (x \<noteq> ''Root'', lower x)) (sorted_dirs md))"
  by (simp add: sorted_dirs_def)

lemma set_sorted_dirs: "set (sorted_dirs md) = fst ` set md"
  by (simp add: sorted_dirs_def)

lemma root_first:
  assumes "''Root'' \<in> fst ` set md"
  shows "hd (sorted_dirs md) = ''Root''"
proof -
  let ?key = "\<lambda>x. (x \<noteq> ''Root'', lower x)"
  from assms have mem: "''Root'' \<in> set (sorted_dirs md)"
    by (simp add: set_sorted_dirs)
  then obtain d ds where ds: "sorted_dirs md = d # ds"
    by (cases "sorted_dirs md") auto
  have "?key d \<le> ?key ''Root''"
  proof (cases "d = ''Root''")
    case True
    then show ?thesis by simp
  next
    case False
    with mem ds have "''Root'' \<in> set ds" by auto
    moreover from sorted_sorted_dirs [of md] ds
    have "\<forall>y \<in> set ds. ?key d \<le> ?key y" by simp
    ultimately show ?thesis by blast
  qed
  then have "d = ''Root''"
    by (auto simp add: less_eq_prod_def)
  with ds show ?thesis by simp
qed

lemma others_sorted:
  "sorted (map lower (filter (\<lambda>d. d \<noteq> ''Root'') (sorted_dirs md)))"
proof -
  let ?key = "\<lambda>x. (x \<noteq> ''Root'', lower x)"
  let ?ds = "filter (\<lambda>d. d \<noteq> ''Root'') (sorted_dirs md)"
  have "sorted (map ?key ?ds)"
    using sorted_sorted_dirs [of md] by (rule sorted_filter)
  then have "sorted_wrt (\<lambda>x y. ?key x \<le> ?key y) ?ds"
    by (simp add: sorted_map)
  then have "sorted_wrt (\<lambda>x y. lower x \<le> lower y) ?ds"
    by (rule sorted_wrt_mono_rel [rotated]) (auto simp add: less_eq_prod_def)
  then show ?thesis
    by (simp add: sorted_map)
qed

text \<open>
  Claim C6, as stated, fails for the category-grouped variant: its sections come in the
  order of the program text, and \<open>Python Scripts\<close> precedes \<open>Documentation\<close>.
\<close>

theorem category_sections_not_alphabetical:
  "group_headers (generate_index_lines mixed_root (scan_directory mixed_root) noon) =
     [''## Python Scripts'', ''## Documentation'', ''## How to Use''] \<and>
   \<not> lower ''Python Scripts'' \<le> lower ''Documentation''"
  by code_simp

text \<open>
  Claim C6, amended. Directory-grouped variant: the group \<open>Root\<close>, if there is one, is the
  first, the other groups follow by lower-cased name, each group of the scan has one
  section, and the section headings of the document come in that order. Category-grouped
  variant: the headings are \<open>Python Scripts\<close>, \<open>Documentation\<close>,
  \<open>Configuration Files\<close>, in this fixed order, those of empty categories left out.
\<close>

theorem group_sections_order:
  "(''Root'' \<in> fst ` set (scan_markdown_files r) \<longrightarrow>
      hd (sorted_dirs (scan_markdown_files r)) = ''Root'') \<and>
   sorted (map lower (filter (\<lambda>d. d \<noteq> ''Root'') (sorted_dirs (scan_markdown_files r)))) \<and>
   distinct (sorted_dirs (scan_markdown_files r)) \<and>
   set (sorted_dirs (scan_markdown_files r)) = fst ` set (scan_markdown_files r) \<and>
   group_headers (index_lines (scan_markdown_files r) now) =
     [''## Statistics'', ''## Table of Contents''] @
     map section_header (sorted_dirs (scan_markdown_files r)) \<and>
   group_headers (generate_index_lines r (scan_directory r) now) =
     (if python_scripts (scan_directory r) \<noteq> [] then [''## Python Scripts''] else []) @
     (if markdown_files (scan_directory r) \<noteq> [] then [''## Documentation''] else []) @
     (if other_files (scan_directory r) \<noteq> [] then [''## Configuration Files''] else []) @
     [''## How to Use'']"
proof -
  have "distinct (sorted_dirs (scan_markdown_files r))"
    using distinct_keys_scan [of r] by (simp add: sorted_dirs_def)
  then show ?thesis
    by (simp add: root_first others_sorted set_sorted_dirs group_headers_index_lines
        group_headers_generate_index)
qed

theorem group_sections_order_witness:
  "''Root'' \<in> fst ` set (scan_markdown_files groups_root) \<and>
   hd (sorted_dirs (scan_markdown_files groups_root)) = ''Root'' \<and>
   sorted_dirs (scan_markdown_files groups_root) = [''Root'', ''A'', ''b''] \<and>
   group_headers (index_lines (scan_markdown_files groups_root) noon) =
     [''## Statistics'', ''## Table of Contents'', ''## Root Directory'', ''## A'', ''## b'']"
proof -
  have h: "''Root'' \<in> fst ` set (scan_markdown_files groups_root)"
    by code_simp
  have s: "sorted_dirs (scan_markdown_files groups_root) = [''Root'', ''A'', ''b'']"
    by code_simp
  have t: "map section_header [''Root'', ''A'', ''b''] = [''## Root Directory'', ''## A'', ''## b'']"
    by code_simp
  from group_sections_order [of groups_root noon] h s t
  show ?thesis by simp
qed

section \<open>The order within a group\<close>

text \<open>
  Claim C7, as stated, fails for the category-grouped variant: \<open>list.sort()\<close> on paths
  is case-sensitive, so \<open>B.py\<close> is listed before \<open>a.py\<close>.
\<close>

theorem category_entries_not_case_insensitive:
  "python_scripts (scan_directory case_root) = [[''B.py''], [''a.py'']] \<and>
   entry_lines (generate_index_lines case_root (scan_directory case_root) noon) =
     [''- [B.py](B.py)'', ''- [a.py](a.py)''] \<and>
   \<not> lower (str_path [''B.py'']) \<le> lower (str_path [''a.py''])"
  by code_simp

text \<open>
  Claim C7, amended. Directory-grouped variant: the link lines of a section are those of
  the group's files, sorted by lower-cased file name. Category-grouped variant: each
  category is sorted by the component lists of its paths, compared case-sensitively by
  code point, and the entry lines follow that order.
\<close>

theorem entries_order_within_group:
  "sorted (map (\<lambda>p. lower (name p)) (sorted_files md d)) \<and>
   mset (sorted_files md d) = mset (dict_get md d) \<and>
   wiki_links (section_lines md d) = map link_line (sorted_files md d) \<and>
   sorted (python_scripts (scan_directory r)) \<and>
   sorted (markdown_files (scan_directory r)) \<and>
   sorted (other_files (scan_directory r)) \<and>
   entry_lines (generate_index_lines r (scan_directory r) now) =
     map (script_entry r) (python_scripts (scan_directory r)) @
     map plain_entry (markdown_files (scan_directory r)) @
     map plain_entry (other_files (scan_directory r))"
  by (simp add: sorted_files_def wiki_links_def wiki_links_section scan_directory_eq
      entry_lines_generate_index)

section \<open>Every file once, in one group\<close>















section \<open>Running twice\<close>


section \<open>Nothing to index\<close>

text \<open>
  Claim C2, as stated, fails for the category-grouped variant: on an empty directory it
  finds nothing, ends with exit code 0 and still writes the output file.
\<close>

theorem empty_index_is_written:
  "listed_paths (scan_directory (Directory [])) = [] \<and>
   exit_code (main_index_generator (Directory []) ''index.md'' noon) = 0 \<and>
   writes (main_index_generator (Directory []) ''index.md'' noon) =
     [(''index.md'',
       join newline (generate_index_lines (Directory []) (scan_directory (Directory [])) noon))]"
  by code_simp

lemma no_notes_no_groups:
  assumes "\<forall>p \<in> set ps. lower (name p) = ''index.md''"
  shows "foldl scan_step d ps = d"
  using assms by (induction ps arbitrary: d) (simp_all add: scan_step_def)

lemma no_entries_no_paths:
  assumes "\<forall>e \<in> set t. \<not> (is_py e \<or> is_md e \<or> is_other e)"
  shows "scan_directory (Directory t) = \<lparr>python_scripts = [], markdown_files = [], other_files = []\<rparr>"
proof -
  from assms have "filter is_py t = []" "filter is_md t = []" "filter is_other t = []"
    by (simp_all add: filter_empty_conv)
  then show ?thesis
    by (simp add: scan_directory_eq walk_def)
qed

text \<open>
  Claim C2, amended. When the root is a directory in which nothing matches, the
  directory-grouped variant prints that no file was found, ends with exit code 0 and writes
  nothing; the category-grouped variant ends with exit code 0 and reports three counts of
  zero, and writes the output file, whose document has no entry line.
\<close>

theorem nothing_found:
  "((\<forall>p \<in> set (rglob_md (Directory t)). lower (name p) = ''index.md'') \<longrightarrow>
      main_create_obsidian_index (Directory t) now =
        \<lparr>events = [Print Scanning, Traverse, Print No_Markdown_Files_Found], exit_code = 0\<rparr> \<and>
      writes (main_create_obsidian_index (Directory t) now) = []) \<and>
   ((\<forall>e \<in> set t. \<not> (is_py e \<or> is_md e \<or> is_other e)) \<and>
    open_write (Directory t) out = None \<longrightarrow>
      listed_paths (scan_directory (Directory t)) = [] \<and>
      exit_code (main_index_generator (Directory t) out now) = 0 \<and>
      Print (Counts 0 0 0) \<in> set (events (main_index_generator (Directory t) out now)) \<and>
      writes (main_index_generator (Directory t) out now) =
        [(out, join newline (generate_index_lines (Directory t) (scan_directory (Directory t)) now))] \<and>
      entry_lines (generate_index_lines (Directory t) (scan_directory (Directory t)) now) = [])"
proof (intro conjI impI)
  assume a: "\<forall>p \<in> set (rglob_md (Directory t)). lower (name p) = ''index.md''"
  then have "scan_markdown_files (Directory t) = []"
    by (simp add: scan_markdown_files_def no_notes_no_groups)
  then show "main_create_obsidian_index (Directory t) now =
        \<lparr>events = [Print Scanning, Traverse, Print No_Markdown_Files_Found], exit_code = 0\<rparr>"
    and "writes (main_create_obsidian_index (Directory t) now) = []"
    by (simp_all add: main_create_obsidian_index_def writes_def)
next
  assume b: "(\<forall>e \<in> set t. \<not> (is_py e \<or> is_md e \<or> is_other e)) \<and>
    open_write (Directory t) out = None"
  then have s: "scan_directory (Directory t) =
      \<lparr>python_scripts = [], markdown_files = [], other_files = []\<rparr>"
    by (simp add: no_entries_no_paths)
  from b have w: "open_write (Directory t) out = None" by simp
  show "listed_paths (scan_directory (Directory t)) = []"
    by (simp add: s listed_paths_def)
  show "exit_code (main_index_generator (Directory t) out now) = 0"
    by (simp add: main_index_generator_def generate_index_def Let_def w)
  show "Print (Counts 0 0 0) \<in> set (events (main_index_generator (Directory t) out now))"
    by (simp add: main_index_generator_def generate_index_def Let_def w s)
  show "writes (main_index_generator (Directory t) out now) =
        [(out, join newline (generate_index_lines (Directory t) (scan_directory (Directory t)) now))]"
    by (simp add: main_index_generator_def generate_index_def Let_def w writes_def newline_def)
  show "entry_lines (generate_index_lines (Directory t) (scan_directory (Directory t)) now) = []"
    by (simp add: entry_lines_generate_index s)
qed


theorem nothing_found_witness:
  "main_create_obsidian_index (Directory index_only_tree) noon =
     \<lparr>events = [Print Scanning, Traverse, Print No_Markdown_Files_Found], exit_code = 0\<rparr> \<and>
   writes (main_create_obsidian_index (Directory index_only_tree) noon) = [] \<and>
   rglob_md (Directory index_only_tree) = [[''index.md'']] \<and>
   open_write (Directory index_only_tree) ''index.md'' = None \<and>
   exit_code (main_index_generator (Directory index_only_tree) ''index.md'' noon) = 0 \<and>
   writes (main_index_generator (Directory index_only_tree) ''index.md'' noon) =
     [(''index.md'', join newline (generate_index_lines (Directory index_only_tree)
        (scan_directory (Directory index_only_tree)) noon))]"
proof -
  have g: "rglob_md (Directory index_only_tree) = [[''index.md'']]"
    by code_simp
  have a: "\<forall>p \<in> set (rglob_md (Directory index_only_tree)). lower (name p) = ''index.md''"
    unfolding g by code_simp
  have b: "\<forall>e \<in> set index_only_tree. \<not> (is_py e \<or> is_md e \<or> is_other e)"
    by code_simp
  have w: "open_write (Directory index_only_tree) ''index.md'' = None"
    by code_simp
  from nothing_found [of index_only_tree noon "''index.md''"] a b w g
  show ?thesis by blast
qed

section \<open>A root that is not a directory\<close>

text \<open>
  Claim C3, as stated, fails for the category-grouped variant: it does not test the root;
  on a missing root the walk is started and yields nothing, and the run fails only when the
  output file is opened.
\<close>

theorem missing_root_is_traversed_first:
  "events (main_index_generator Missing ''index.md'' noon) =
     [Print Scanning, Traverse, Print_Stderr (Error_Exception FileNotFoundError)]"
  by code_simp

text \<open>
  Claim C3, amended. When the root is missing or is not a directory, each variant ends
  with exit code 1 and writes no file. The directory-grouped variant prints its error and
  does nothing else; the category-grouped variant starts the walk first.
\<close>

theorem missing_root_fails:
  assumes "r = Missing \<or> r = Not_A_Directory"
  shows "main_create_obsidian_index r now =
           \<lparr>events = [Print Error_Directory_Does_Not_Exist], exit_code = 1\<rparr> \<and>
         writes (main_create_obsidian_index r now) = [] \<and>
         exit_code (main_index_generator r out now) = 1 \<and>
         writes (main_index_generator r out now) = [] \<and>
         take 2 (events (main_index_generator r out now)) = [Print Scanning, Traverse]"
  using assms
  by (auto simp add: main_create_obsidian_index_def main_index_generator_def generate_index_def
      open_write_def writes_def Let_def)

theorem missing_root_fails_witness:
  "main_create_obsidian_index Not_A_Directory noon =
     \<lparr>events = [Print Error_Directory_Does_Not_Exist], exit_code = 1\<rparr> \<and>
   writes (main_create_obsidian_index Not_A_Directory noon) = [] \<and>
   exit_code (main_index_generator Not_A_Directory ''index.md'' noon) = 1 \<and>
   writes (main_index_generator Not_A_Directory ''index.md'' noon) = [] \<and>
   events (main_index_generator Not_A_Directory ''index.md'' noon) =
     [Print Scanning, Traverse, Print_Stderr (Error_Exception NotADirectoryError)]"
proof -
  have h: "Not_A_Directory = Missing \<or> Not_A_Directory = Not_A_Directory"
    by simp
  have e: "events (main_index_generator Not_A_Directory ''index.md'' noon) =
     [Print Scanning, Traverse, Print_Stderr (Error_Exception NotADirectoryError)]"
    by code_simp
  from missing_root_fails [OF h, of noon "''index.md''"] e
  show ?thesis by blast
qed


section \<open>The description of a script\<close>

lemma trim_affixes:
  assumes "\<forall>x \<in> set a. P x" and "\<forall>x \<in> set b. P x"
    and "c \<noteq> []" and "\<not> P (hd c)" and "\<not> P (last c)"
  shows "rev (dropWhile P (rev (dropWhile P (a @ c @ b)))) = c"
proof -
  from assms(3,4) obtain x xs where c: "c = x # xs" and x: "\<not> P x"
    by (cases c) auto
  from assms(3,5) obtain ys y where c': "c = ys @ [y]" and y: "\<not> P y"
    by (cases c rule: rev_cases) auto
  from assms(1) have "dropWhile P (a @ c @ b) = dropWhile P (c @ b)"
    by (simp add: dropWhile_append)
  also from x have "\<dots> = c @ b"
    by (simp add: c)
  finally have 1: "dropWhile P (a @ c @ b) = c @ b" .
  from assms(2) have "dropWhile P (rev b @ rev c) = dropWhile P (rev c)"
    by (simp add: dropWhile_append)
  also from y have "\<dots> = rev c"
    by (simp add: c')
  finally show ?thesis
    by (simp add: 1)
qed

lemma trim_plain:
  assumes "c \<noteq> []" and "\<not> P (hd c)" and "\<not> P (last c)"
  shows "rev (dropWhile P (rev (dropWhile P c))) = c"
  using trim_affixes [of "[]" P "[]" c] assms by simp

lemma strip_plain_text: "plain_text c \<Longrightarrow> strip c = c"
  unfolding strip_def plain_text_def quote_or_space_def by (rule trim_plain) simp_all

lemma strip_chars_plain_text:
  "plain_text c \<Longrightarrow> strip_chars triple_double c = c"
  "plain_text c \<Longrightarrow> strip_chars triple_single c = c"
  unfolding strip_chars_def plain_text_def quote_or_space_def
  by (rule trim_plain; simp add: triple_double_def triple_single_def)+

lemma strip_delimited:
  assumes "plain_text c" and "delim = triple_double \<or> delim = triple_single"
    and "s = delim @ c \<or> s = delim @ c @ delim"
  shows "strip (strip_chars triple_single (strip_chars triple_double s)) = c"
proof -
  have dq: "strip_chars triple_double (triple_double @ c @ b) = c"
    if "b = [] \<or> b = triple_double" for b
    unfolding strip_chars_def using assms(1) that
    by (intro trim_affixes) (auto simp add: plain_text_def quote_or_space_def triple_double_def)
  have sq: "strip_chars triple_single (triple_single @ c @ b) = c"
    if "b = [] \<or> b = triple_single" for b
    unfolding strip_chars_def using assms(1) that
    by (intro trim_affixes) (auto simp add: plain_text_def quote_or_space_def triple_single_def)
  have keep: "strip_chars triple_double (triple_single @ c @ b) = triple_single @ c @ b"
    if "b = [] \<or> b = triple_single" for b
    unfolding strip_chars_def using assms(1) that
    by (intro trim_plain)
       (auto simp add: plain_text_def quote_or_space_def triple_double_def triple_single_def)
  from assms(2,3) consider
      (d) b where "s = triple_double @ c @ b" "b = [] \<or> b = triple_double"
    | (s) b where "s = triple_single @ c @ b" "b = [] \<or> b = triple_single"
    by auto
  then show ?thesis
  proof cases
    case d
    then show ?thesis
      using assms(1) by (simp add: dq strip_chars_plain_text strip_plain_text del: append_assoc)
  next
    case s
    then show ?thesis
      using assms(1) by (simp add: keep sq strip_plain_text del: append_assoc)
  qed
qed

lemma contains_prefix: "contains (p @ s) p"
proof (cases "p @ s")
  case Nil
  then show ?thesis by simp
next
  case (Cons a list)
  have "startswith (p @ s) p"
    by (simp add: startswith_def)
  then show ?thesis
    unfolding Cons by simp
qed

lemma skip_before_docstring:
  "\<forall>x \<in> set pre. \<not> has_triple_quote x \<Longrightarrow>
     docstring_scan False (pre @ ls) = docstring_scan False ls"
  by (induction pre) (simp_all add: has_triple_quote_def Let_def)

lemma skip_blank_lines:
  "\<forall>x \<in> set blanks. strip x = [] \<Longrightarrow>
     docstring_scan True (blanks @ ls) = docstring_scan True ls"
  by (induction blanks) (simp_all add: Let_def triple_double_def triple_single_def)

lemma opener_with_text:
  assumes "plain_text c" and "delim = triple_double \<or> delim = triple_single"
    and "strip opener = delim @ c \<or> strip opener = delim @ c @ delim"
  shows "docstring_scan False (opener # rest) = c"
proof -
  from assms(3) obtain s where "strip opener = delim @ s" by auto
  then have "contains (strip opener) delim"
    by (simp add: contains_prefix)
  with assms(2) have "has_triple_quote opener"
    by (auto simp add: has_triple_quote_def)
  moreover from assms(1) have "c \<noteq> []"
    by (simp add: plain_text_def)
  ultimately show ?thesis
    using strip_delimited [OF assms(1,2,3)]
    by (simp add: has_triple_quote_def Let_def)
qed

lemma strip_delimiter_alone:
  "strip (strip_chars triple_single (strip_chars triple_double triple_double)) = []"
  "strip (strip_chars triple_single (strip_chars triple_double triple_single)) = []"
  by (simp_all add: strip_def strip_chars_def triple_double_def triple_single_def)

lemma opener_alone:
  assumes "delim = triple_double \<or> delim = triple_single" and "strip opener = delim"
  shows "docstring_scan False (opener # rest) = docstring_scan True rest"
proof -
  have "contains (strip opener) delim"
    using contains_prefix [of delim "[]"] assms(2) by simp
  with assms(1) have h: "has_triple_quote opener"
    by (auto simp add: has_triple_quote_def)
  from assms have e:
    "strip (strip_chars triple_single (strip_chars triple_double (strip opener))) = []"
    using strip_delimiter_alone by auto
  from h e show ?thesis
    by (simp add: has_triple_quote_def Let_def)
qed

lemma first_content_line:
  assumes "strip first \<noteq> []" and "\<not> has_triple_quote first"
  shows "docstring_scan True (first # later) = strip first"
  using assms by (simp add: has_triple_quote_def Let_def)

text \<open>
  Claim C9 at a failing input. \<open>get_file_description\<close> takes the delimiters off with
  \<open>strip\<close>, which removes every leading and trailing character of a set: for a script whose
  one-line docstring ends with a quoted word, the inline content between the delimiters ends
  with a quote character, and the description in the entry has lost it.
\<close>

theorem quoted_docstring_loses_its_quote:
  "read_lines quoted_root [''script.py''] =
     Some [triple_double @ ''Prints '' @ [CHR 0x27] @ ''hello'' @ [CHR 0x27] @ triple_double @ newline] \<and>
   get_file_description quoted_root [''script.py''] = ''Prints '' @ [CHR 0x27] @ ''hello'' \<and>
   get_file_description quoted_root [''script.py''] \<noteq>
     ''Prints '' @ [CHR 0x27] @ ''hello'' @ [CHR 0x27] \<and>
   entry_lines (generate_index_lines quoted_root (scan_directory quoted_root) noon) =
     [''- [script.py](script.py) - Prints '' @ [CHR 0x27] @ ''hello'']"
  by code_simp

text \<open>
  What the extraction does return where the stripping is harmless. A script that cannot be
  read has the empty description, and its entry is the plain one. Otherwise let the first
  line with a triple quote, after lines that have none, begin with the delimiter once
  stripped. If the text that follows the delimiter on that line, up to an optional closing
  delimiter, is not empty and neither begins nor ends with whitespace or a quote character,
  the description is that text. If the line is the delimiter alone, the description is the
  first line after it that is not blank, stripped, when that line comes before any other
  line with a triple quote. In both cases the entry of the script is its plain entry
  followed by the description.
\<close>

theorem description_from_docstring:
  "(read_lines r p = None \<longrightarrow>
      get_file_description r p = [] \<and> script_entry r p = plain_entry p) \<and>
   (path_suffix p = ''.py'' \<and> read_lines r p = Some (pre @ opener # rest) \<and>
    (\<forall>x \<in> set pre. \<not> has_triple_quote x) \<and>
    (delim = triple_double \<or> delim = triple_single) \<longrightarrow>
      (plain_text c \<and> (strip opener = delim @ c \<or> strip opener = delim @ c @ delim) \<longrightarrow>
         get_file_description r p = c \<and>
         script_entry r p = plain_entry p @ '' - '' @ c) \<and>
      (strip opener = delim \<and> rest = blanks @ first # later \<and>
       (\<forall>x \<in> set blanks. strip x = []) \<and> strip first \<noteq> [] \<and> \<not> has_triple_quote first \<longrightarrow>
         get_file_description r p = strip first \<and>
         script_entry r p = plain_entry p @ '' - '' @ strip first))"
proof (intro conjI impI)
  assume "read_lines r p = None"
  then show "get_file_description r p = []" and "script_entry r p = plain_entry p"
    by (simp_all add: get_file_description_def script_entry_def)
next
  assume a: "path_suffix p = ''.py'' \<and> read_lines r p = Some (pre @ opener # rest) \<and>
    (\<forall>x \<in> set pre. \<not> has_triple_quote x) \<and> (delim = triple_double \<or> delim = triple_single)"
  then have d: "get_file_description r p = docstring_scan False (opener # rest)"
    by (simp add: get_file_description_def skip_before_docstring)
  from a have delim: "delim = triple_double \<or> delim = triple_single"
    by simp
  {
    assume b: "plain_text c \<and> (strip opener = delim @ c \<or> strip opener = delim @ c @ delim)"
    then have "docstring_scan False (opener # rest) = c"
      using delim by (intro opener_with_text [of c delim]) simp_all
    with d show g: "get_file_description r p = c"
      by simp
    from b have "c \<noteq> []"
      by (simp add: plain_text_def)
    with g show "script_entry r p = plain_entry p @ '' - '' @ c"
      by (simp add: script_entry_def)
  }
  {
    assume b: "strip opener = delim \<and> rest = blanks @ first # later \<and>
       (\<forall>x \<in> set blanks. strip x = []) \<and> strip first \<noteq> [] \<and> \<not> has_triple_quote first"
    then have "docstring_scan False (opener # rest) = docstring_scan True (blanks @ first # later)"
      using delim opener_alone [of delim opener rest] by simp
    also from b have "\<dots> = docstring_scan True (first # later)"
      by (simp add: skip_blank_lines)
    also from b have "\<dots> = strip first"
      by (intro first_content_line) simp_all
    finally show g: "get_file_description r p = strip first"
      using d by simp
    from b g show "script_entry r p = plain_entry p @ '' - '' @ strip first"
      by (simp add: script_entry_def)
  }
qed

theorem description_from_docstring_witness:
  "get_file_description unreadable_root [''script.py''] = [] \<and>
   get_file_description inline_root [''script.py''] = ''Does a thing.'' \<and>
   get_file_description script_root [''script.py''] = ''Does a thing.'' \<and>
   script_entry script_root [''script.py''] = ''- [script.py](script.py) - Does a thing.'' \<and>
   entry_lines (generate_index_lines script_root (scan_directory script_root) noon) =
     [''- [script.py](script.py) - Does a thing.'']"
proof -
  have u: "read_lines unreadable_root [''script.py''] = None"
    by code_simp
  have s: "path_suffix [''script.py''] = ''.py''"
    by code_simp
  have i: "read_lines inline_root [''script.py''] =
      Some ([] @ (triple_double @ ''Does a thing.'' @ triple_double @ newline) #
        [''import os'' @ newline])"
    by code_simp
  have io: "plain_text ''Does a thing.'' \<and>
      strip (triple_double @ ''Does a thing.'' @ triple_double @ newline) =
        triple_double @ ''Does a thing.'' @ triple_double"
    by code_simp
  have b: "read_lines script_root [''script.py''] =
      Some ([''#!/usr/bin/env python3'' @ newline] @ (triple_double @ newline) #
        ([] @ (''Does a thing.'' @ newline) # [triple_double @ newline]))"
    by code_simp
  have bp: "\<forall>x \<in> set [''#!/usr/bin/env python3'' @ newline]. \<not> has_triple_quote x"
    by code_simp
  have bo: "strip (triple_double @ newline) = triple_double \<and>
      strip (''Does a thing.'' @ newline) = ''Does a thing.'' \<and>
      \<not> has_triple_quote (''Does a thing.'' @ newline)"
    by code_simp
  have pe: "plain_entry [''script.py''] @ '' - '' @ ''Does a thing.'' =
      ''- [script.py](script.py) - Does a thing.''"
    by code_simp
  have el: "entry_lines (generate_index_lines script_root (scan_directory script_root) noon) =
     [''- [script.py](script.py) - Does a thing.'']"
    by code_simp
  from description_from_docstring [where r = unreadable_root and p = "[''script.py'']"] u
  have 1: "get_file_description unreadable_root [''script.py''] = []"
    by blast
  from description_from_docstring [where r = inline_root and p = "[''script.py'']"
      and pre = "[]" and opener = "triple_double @ ''Does a thing.'' @ triple_double @ newline"
      and rest = "[''import os'' @ newline]" and delim = triple_double
      and c = "''Does a thing.''"] s i io
  have 2: "get_file_description inline_root [''script.py''] = ''Does a thing.''"
    by simp
  from description_from_docstring [where r = script_root and p = "[''script.py'']"
      and pre = "[''#!/usr/bin/env python3'' @ newline]" and opener = "triple_double @ newline"
      and rest = "[] @ (''Does a thing.'' @ newline) # [triple_double @ newline]"
      and delim = triple_double and blanks = "[]" and first = "''Does a thing.'' @ newline"
      and later = "[triple_double @ newline]"] s b bp bo
  have 3: "get_file_description script_root [''script.py''] = ''Does a thing.'' \<and>
      script_entry script_root [''script.py''] =
        plain_entry [''script.py''] @ '' - '' @ ''Does a thing.''"
    by simp
  from 1 2 3 pe el show ?thesis
    by simp
qed

end
